theory Spec2Isabelle
  imports Complex_Main "HOL-Library.Log_Nat"
begin

section \<open>Values of the host language\<close>

text \<open>
  The ratings helper of the clipper (\<^verbatim>\<open>src/scripts/clipperUI/ratingsHelper.ts\<close>) works on
  strings that may be \<^verbatim>\<open>null\<close> or \<^verbatim>\<open>undefined\<close> and on numbers.
  A nullable value is an \<open>option\<close> (\<open>None\<close> for both \<^verbatim>\<open>null\<close> and \<^verbatim>\<open>undefined\<close>, which
  the code never tells apart: it only asks \<^verbatim>\<open>Utils.isNullOrUndefined\<close>).

  A number is a double: \<^verbatim>\<open>NaN\<close>, \<^verbatim>\<open>Infinity\<close> (\<open>PInf\<close>), \<^verbatim>\<open>-Infinity\<close> (\<open>NInf\<close>) or a finite
  value. A finite number whose value is an integer is \<open>Num n\<close>; any other finite number
  is \<open>Frac r\<close> with \<open>r\<close> its value. (The two zeros are one \<open>Num 0\<close>: the helper cannot
  tell them apart.)
\<close>

datatype jsnum = NaN | Num int | Frac real | PInf | NInf

definition isNaN :: "jsnum \<Rightarrow> bool" where
  "isNaN x = (case x of NaN \<Rightarrow> True | _ \<Rightarrow> False)"

definition finite_num :: "real \<Rightarrow> jsnum" where
  "finite_num r = (if r = of_int \<lfloor>r\<rfloor> then Num \<lfloor>r\<rfloor> else Frac r)"

text \<open>
  Relational operators on numbers: every comparison with \<^verbatim>\<open>NaN\<close> is false; the
  infinities lie below and above every finite number; finite numbers compare by value.
\<close>

fun num_le :: "jsnum \<Rightarrow> jsnum \<Rightarrow> bool" where
  "num_le (Num a) (Num b) = (a \<le> b)"
| "num_le NaN _ = False"
| "num_le _ NaN = False"
| "num_le NInf _ = True"
| "num_le _ PInf = True"
| "num_le PInf _ = False"
| "num_le _ NInf = False"
| "num_le (Num a) (Frac b) = (real_of_int a \<le> b)"
| "num_le (Frac a) (Num b) = (a \<le> real_of_int b)"
| "num_le (Frac a) (Frac b) = (a \<le> b)"

fun num_lt :: "jsnum \<Rightarrow> jsnum \<Rightarrow> bool" where
  "num_lt (Num a) (Num b) = (a < b)"
| "num_lt NaN _ = False"
| "num_lt _ NaN = False"
| "num_lt PInf _ = False"
| "num_lt _ NInf = False"
| "num_lt NInf _ = True"
| "num_lt _ PInf = True"
| "num_lt (Num a) (Frac b) = (real_of_int a < b)"
| "num_lt (Frac a) (Num b) = (a < real_of_int b)"
| "num_lt (Frac a) (Frac b) = (a < b)"

definition num_ge :: "jsnum \<Rightarrow> jsnum \<Rightarrow> bool" where
  "num_ge a b = num_le b a"

definition num_gt :: "jsnum \<Rightarrow> jsnum \<Rightarrow> bool" where
  "num_gt a b = num_lt b a"

text \<open>\<^verbatim>\<open>a === b\<close> on two numbers: never true of \<^verbatim>\<open>NaN\<close>, otherwise equality of values.\<close>

fun num_eq :: "jsnum \<Rightarrow> jsnum \<Rightarrow> bool" where
  "num_eq (Num a) (Num b) = (a = b)"
| "num_eq (Num a) (Frac b) = (real_of_int a = b)"
| "num_eq (Frac a) (Num b) = (a = real_of_int b)"
| "num_eq (Frac a) (Frac b) = (a = b)"
| "num_eq PInf PInf = True"
| "num_eq NInf NInf = True"
| "num_eq _ _ = False"

subsection \<open>Rounding to a double\<close>

text \<open>
  The number value of a mathematical integer (what \<^verbatim>\<open>parseInt\<close> returns for a run of
  digits): the nearest double, the even one of two that are equally near. Up to 53 bits
  the integer is kept; beyond, the low \<open>k\<close> bits are rounded away; a result of
  \<open>2 ^ 1024\<close> or more is an infinity.
\<close>

definition roundInt :: "int \<Rightarrow> jsnum" where
  "roundInt n =
     (let a = \<bar>n\<bar>;
          k = nat (bitlen a - 53);
          q = a div 2 ^ k;
          r = a mod 2 ^ k;
          up = (2 * r > 2 ^ k \<or> (2 * r = 2 ^ k \<and> odd q));
          m = (if up then q + 1 else q) * 2 ^ k
      in if m \<ge> 2 ^ 1024 then (if n < 0 then NInf else PInf)
         else Num (if n < 0 then - m else m))"

text \<open>
  The same rounding for a real value (the exact result of an arithmetic operation).
  Every finite double is a multiple of \<open>2 ^ -1074\<close>, so the value is counted in that unit
  and the count is rounded to 53 bits as above.
\<close>

definition roundReal :: "real \<Rightarrow> jsnum" where
  "roundReal x =
     (let t = \<bar>x\<bar> * 2 ^ 1074;
          k = nat (bitlen \<lfloor>t\<rfloor> - 53);
          s = t / 2 ^ k;
          q = \<lfloor>s\<rfloor>;
          f = s - of_int q;
          up = (f > 1 / 2 \<or> (f = 1 / 2 \<and> odd q));
          m = (if up then q + 1 else q) * 2 ^ k
      in if m \<ge> 2 ^ 2098 then (if x < 0 then NInf else PInf)
         else finite_num ((if x < 0 then - 1 else 1) * of_int m / 2 ^ 1074))"

text \<open>
  \<^verbatim>\<open>a - b\<close>. \<^verbatim>\<open>NaN\<close> gives \<^verbatim>\<open>NaN\<close>, as does the difference of two equal infinities; an
  infinity wins over a finite number. The difference of two integer-valued numbers is
  their integer difference: it is the double the code computes up to \<open>2 ^ 53\<close> in
  magnitude, and beyond it stands in the same order as that double to every integer
  below \<open>2 ^ 53\<close> in magnitude, which is all the helper asks of it. Any other finite
  difference is rounded to a double.
\<close>

fun num_sub :: "jsnum \<Rightarrow> jsnum \<Rightarrow> jsnum" where
  "num_sub (Num a) (Num b) = Num (a - b)"
| "num_sub NaN _ = NaN"
| "num_sub _ NaN = NaN"
| "num_sub PInf PInf = NaN"
| "num_sub NInf NInf = NaN"
| "num_sub PInf _ = PInf"
| "num_sub NInf _ = NInf"
| "num_sub _ PInf = NInf"
| "num_sub _ NInf = PInf"
| "num_sub (Num a) (Frac b) = roundReal (real_of_int a - b)"
| "num_sub (Frac a) (Num b) = roundReal (a - real_of_int b)"
| "num_sub (Frac a) (Frac b) = roundReal (a - b)"

text \<open>
  \<^verbatim>\<open>getMajorVersion\<close> and \<^verbatim>\<open>getMinorVersion\<close> may fall off their end and return
  \<^verbatim>\<open>undefined\<close>, so their results are \<open>jsnum option\<close>. In \<^verbatim>\<open>a > b\<close> an \<^verbatim>\<open>undefined\<close>
  operand converts to \<^verbatim>\<open>NaN\<close>; \<^verbatim>\<open>a === b\<close> holds for two \<^verbatim>\<open>undefined\<close>, and for two
  numbers as \<open>num_eq\<close> says.
\<close>

fun gt_undef :: "jsnum option \<Rightarrow> jsnum option \<Rightarrow> bool" where
  "gt_undef (Some a) (Some b) = num_gt a b"
| "gt_undef _ _ = False"

fun strict_eq_undef :: "jsnum option \<Rightarrow> jsnum option \<Rightarrow> bool" where
  "strict_eq_undef None None = True"
| "strict_eq_undef (Some a) (Some b) = num_eq a b"
| "strict_eq_undef _ _ = False"

subsection \<open>Strings\<close>

text \<open>
  A string is a list of 8-bit characters, read as code units in the Latin-1 range.
  \<^verbatim>\<open>toLowerCase\<close> moves the capital letters \<^verbatim>\<open>A\<close>..\<^verbatim>\<open>Z\<close> and the accented capitals
  \<open>0xC0\<close>..\<open>0xDE\<close> (without the multiplication sign \<open>0xD7\<close>) 32 places up and leaves
  every other character alone.
\<close>

definition lowerChar :: "char \<Rightarrow> char" where
  "lowerChar c =
     (let n = (of_char c :: nat)
      in if (65 \<le> n \<and> n \<le> 90) \<or> (192 \<le> n \<and> n \<le> 222 \<and> n \<noteq> 215)
         then char_of (n + 32) else c)"

definition toLowerCase :: "string \<Rightarrow> string" where
  "toLowerCase s = map lowerChar s"

text \<open>
  \<^verbatim>\<open>s.split(".")\<close>: the pieces between the dots, in order. The result is never empty:
  the empty string splits into one empty piece.
\<close>

fun split_dot :: "string \<Rightarrow> string list" where
  "split_dot [] = [[]]"
| "split_dot (c # cs) =
     (if c = CHR ''.'' then [] # split_dot cs
      else (case split_dot cs of
              [] \<Rightarrow> [[c]]
            | s # ss \<Rightarrow> (c # s) # ss))"

text \<open>\<^verbatim>\<open>xs[i]\<close> on an array: \<^verbatim>\<open>undefined\<close> beyond its end.\<close>

definition index :: "'a list \<Rightarrow> nat \<Rightarrow> 'a option" where
  "index xs i = (if i < length xs then Some (xs ! i) else None)"

text \<open>
  \<^verbatim>\<open>parseInt(s, 10)\<close>: \<^verbatim>\<open>null\<close> and \<^verbatim>\<open>undefined\<close> become the strings \<^verbatim>\<open>"null"\<close> and
  \<^verbatim>\<open>"undefined"\<close>, which hold no digit, so the result is \<^verbatim>\<open>NaN\<close>. Otherwise leading
  white space is dropped, one sign is read, and the longest run of decimal digits that
  follows is read as an integer, whose number value (\<open>roundInt\<close>) is the result; what
  comes after that run is ignored; no digit at all gives \<^verbatim>\<open>NaN\<close>.
\<close>

definition isWhiteSpace :: "char \<Rightarrow> bool" where
  "isWhiteSpace c = (of_char c \<in> {9, 10, 11, 12, 13, 32, 160 :: nat})"

definition isDigit :: "char \<Rightarrow> bool" where
  "isDigit c = (48 \<le> (of_char c :: nat) \<and> (of_char c :: nat) \<le> 57)"

definition digitsValue :: "string \<Rightarrow> int" where
  "digitsValue ds = foldl (\<lambda>acc c. 10 * acc + (int (of_char c) - 48)) 0 ds"

definition parseInt :: "string option \<Rightarrow> jsnum" where
  "parseInt so =
     (case so of
        None \<Rightarrow> NaN
      | Some s \<Rightarrow>
          (let t = dropWhile isWhiteSpace s;
               neg = (case t of [] \<Rightarrow> False | c # _ \<Rightarrow> c = CHR ''-'');
               u = (case t of [] \<Rightarrow> []
                    | c # r \<Rightarrow> if c = CHR ''-'' \<or> c = CHR ''+'' then r else t);
               ds = takeWhile isDigit u
           in if ds = [] then NaN
              else roundInt ((if neg then - 1 else 1) * digitsValue ds)))"

section \<open>Configured constants\<close>

text \<open>
  \<^verbatim>\<open>Constants.Settings\<close> is declared in \<^verbatim>\<open>../constants\<close>, which is not among the sources.
  The four constants the helper reads are parameters of the model.
\<close>

record Settings_consts =
  maximumJSTimeValue :: int
  minTimeBetweenBadRatings :: int
  minClipSuccessForRatingsPrompt :: int
  maxClipSuccessForRatingsPrompt :: int

section \<open>Version strings\<close>

text \<open>
  \<^verbatim>\<open>split\<close> always returns an array, so the tests \<^verbatim>\<open>isNullOrUndefined(versionSplit)\<close>
  of the three functions below are never true and have no branch in the model.
  \<^verbatim>\<open>getMajorVersion\<close> and \<^verbatim>\<open>getMinorVersion\<close> return nothing (\<open>None\<close>) when the version
  itself is missing.
\<close>

definition versionHasCorrectFormat :: "string option \<Rightarrow> bool" where
  "versionHasCorrectFormat version =
     (case version of
        None \<Rightarrow> False
      | Some v \<Rightarrow>
          (let versionSplit = split_dot v
           in if length versionSplit \<noteq> 3 \<or>
                 isNaN (parseInt (index versionSplit 0)) \<or>
                 isNaN (parseInt (index versionSplit 1)) \<or>
                 isNaN (parseInt (index versionSplit 2))
              then False
              else True))"

definition getMajorVersion :: "string option \<Rightarrow> jsnum option" where
  "getMajorVersion versionNum =
     (case versionNum of
        None \<Rightarrow> None
      | Some v \<Rightarrow> Some (parseInt (index (split_dot v) 0)))"

definition getMinorVersion :: "string option \<Rightarrow> jsnum option" where
  "getMinorVersion versionNum =
     (case versionNum of
        None \<Rightarrow> None
      | Some v \<Rightarrow> Some (parseInt (index (split_dot v) 1)))"

section \<open>Delay policies\<close>

definition isValidDate :: "Settings_consts \<Rightarrow> jsnum \<Rightarrow> bool" where
  "isValidDate c date =
     (let minimumTimeValue = maximumJSTimeValue c * - 1
      in num_ge date (Num minimumTimeValue) \<and> num_le date (Num (maximumJSTimeValue c)))"

definition badRatingTimingDelayIsOver :: "Settings_consts \<Rightarrow> jsnum \<Rightarrow> jsnum \<Rightarrow> bool" where
  "badRatingTimingDelayIsOver c badRatingDate comparisonDate =
     (if isNaN badRatingDate then True
      else if \<not> isValidDate c badRatingDate \<or> \<not> isValidDate c comparisonDate then False
      else num_ge (num_sub comparisonDate badRatingDate) (Num (minTimeBetweenBadRatings c)))"

definition badRatingVersionDelayIsOver :: "string option \<Rightarrow> string option \<Rightarrow> bool" where
  "badRatingVersionDelayIsOver badRatingVersion lastSeenVersion =
     (if badRatingVersion = None then True
      else if \<not> versionHasCorrectFormat lastSeenVersion \<or>
              \<not> versionHasCorrectFormat badRatingVersion then False
      else
        (let lastSeenMajor = getMajorVersion lastSeenVersion;
             badRatingMajor = getMajorVersion badRatingVersion
         in if gt_undef lastSeenMajor badRatingMajor then True
            else
              (let lastSeenMinor = getMinorVersion lastSeenVersion;
                   badRatingMinor = getMinorVersion badRatingVersion
               in if strict_eq_undef lastSeenMajor badRatingMajor \<and>
                     gt_undef lastSeenMinor badRatingMinor
                  then True
                  else False)))"

definition clipSuccessDelayIsOver :: "Settings_consts \<Rightarrow> jsnum \<Rightarrow> bool" where
  "clipSuccessDelayIsOver c numClips =
     (if isNaN numClips then False
      else num_ge numClips (Num (minClipSuccessForRatingsPrompt c)) \<and>
           num_le numClips (Num (maxClipSuccessForRatingsPrompt c)))"

section \<open>The collaborators: storage, settings, logger, clock\<close>

text \<open>
  Modelled from the spec: the key names of \<^verbatim>\<open>Constants.StorageKeys\<close> (declared in
  \<^verbatim>\<open>../constants\<close>, not among the sources). The spec lists the persisted key names.
\<close>

definition doNotPromptRatings :: string where
  "doNotPromptRatings = ''doNotPromptRatings''"

definition lastBadRatingDate :: string where
  "lastBadRatingDate = ''lastBadRatingDate''"

definition lastBadRatingVersion :: string where
  "lastBadRatingVersion = ''lastBadRatingVersion''"

definition lastSeenVersion :: string where
  "lastSeenVersion = ''lastSeenVersion''"

definition numSuccessfulClips :: string where
  "numSuccessfulClips = ''numSuccessfulClips''"

text \<open>
  The diagnostic fields of one evaluation (\<^verbatim>\<open>RatingsLoggingInfo\<close>). Every field is
  optional: \<open>None\<close> is a field never assigned. Two fields are assigned what storage gave
  back, which may itself be \<^verbatim>\<open>null\<close>: there \<open>Some None\<close> is an assigned \<^verbatim>\<open>null\<close>.
  \<^verbatim>\<open>info_lastBadRatingDate\<close> keeps the number that the code renders with
  \<^verbatim>\<open>new Date(_).toString()\<close>, not the rendered text; it is \<^verbatim>\<open>null\<close> for the numbers
  that count as false, \<^verbatim>\<open>NaN\<close> and zero.
\<close>

record RatingsLoggingInfo =
  info_badRatingTimingDelayIsOver :: "bool option"
  info_badRatingVersionDelayIsOver :: "bool option"
  info_clipSuccessDelayIsOver :: "bool option"
  info_doNotPromptRatings :: "bool option"
  info_lastBadRatingDate :: "jsnum option option"
  info_lastBadRatingVersion :: "string option option"
  info_lastSeenVersion :: "string option option"
  info_numSuccessfulClips :: "jsnum option"
  info_ratingsPromptEnabledForClient :: "bool option"
  info_usedCachedValue :: "bool option"

definition emptyInfo :: RatingsLoggingInfo where
  "emptyInfo =
     \<lparr>info_badRatingTimingDelayIsOver = None, info_badRatingVersionDelayIsOver = None,
      info_clipSuccessDelayIsOver = None, info_doNotPromptRatings = None,
      info_lastBadRatingDate = None, info_lastBadRatingVersion = None,
      info_lastSeenVersion = None, info_numSuccessfulClips = None,
      info_ratingsPromptEnabledForClient = None, info_usedCachedValue = None\<rparr>"

text \<open>
  Modelled from the spec: the log event (\<^verbatim>\<open>Log.Event.PromiseEvent\<close>, declared in
  \<^verbatim>\<open>../logging/log\<close>, not among the sources): a label, a status (Succeeded or Failed,
  Succeeded until \<^verbatim>\<open>setStatus\<close> says otherwise), the failure information and the named
  custom properties. The two custom properties the helper sets are two fields; the
  \<^verbatim>\<open>RatingsInfo\<close> property holds the diagnostic fields themselves where the code holds
  their JSON text.
\<close>

datatype Status = Succeeded | Failed

datatype Label = ShouldShowRatingsPrompt | SetDoNotPromptRatings

record PromiseEvent =
  label :: Label
  status :: Status
  failureInfo :: "string option"
  custom_ShouldShowRatingsPrompt :: "bool option"
  custom_RatingsInfo :: "RatingsLoggingInfo option"

definition newPromiseEvent :: "Label \<Rightarrow> PromiseEvent" where
  "newPromiseEvent l =
     \<lparr>label = l, status = Succeeded, failureInfo = None,
      custom_ShouldShowRatingsPrompt = None, custom_RatingsInfo = None\<rparr>"

text \<open>
  \<^verbatim>\<open>ClientType\<close> is a numeric enum declared in \<^verbatim>\<open>../clientType\<close>, not among the
  sources. A client type is its number; \<^verbatim>\<open>ClientType[clientType]\<close>, the name of the
  member with that number, is the parameter \<open>clientTypeNames\<close> of the world,
  \<^verbatim>\<open>undefined\<close> (\<open>None\<close>) for a number that is no member.
\<close>

type_synonym ClientType = nat

text \<open>
  Modelled from the spec: the collaborators \<^verbatim>\<open>Clipper.Storage\<close>, \<^verbatim>\<open>Settings\<close>,
  \<^verbatim>\<open>Clipper.logger\<close> and the clock (none among the sources), by their contracts:
  \<^verbatim>\<open>getCachedValue(key) -> string | absent\<close>, \<^verbatim>\<open>setValue(key, value) -> void\<close>,
  \<^verbatim>\<open>getSetting(name) -> string | absent\<close>, \<^verbatim>\<open>logEvent(event)\<close>, the current time in
  milliseconds. The world records every storage read and every storage write in the
  order they happen, so that a claim about reads and writes can be stated.
\<close>

record world =
  storageCache :: "string \<rightharpoonup> string"
  storageReads :: "string list"
  storageWrites :: "(string \<times> string) list"
  settings :: "string \<rightharpoonup> string"
  clientTypeNames :: "ClientType \<rightharpoonup> string"
  now :: int
  loggedEvents :: "PromiseEvent list"

definition getCachedValue :: "string \<Rightarrow> world \<Rightarrow> string option \<times> world" where
  "getCachedValue key w = (storageCache w key, w\<lparr>storageReads := storageReads w @ [key]\<rparr>)"

definition setValue :: "string \<Rightarrow> string \<Rightarrow> world \<Rightarrow> world" where
  "setValue key val w =
     w\<lparr>storageCache := (storageCache w)(key \<mapsto> val),
       storageWrites := storageWrites w @ [(key, val)]\<rparr>"

definition getSetting :: "world \<Rightarrow> string \<Rightarrow> string option" where
  "getSetting w name = settings w name"

definition logEvent :: "PromiseEvent \<Rightarrow> world \<Rightarrow> world" where
  "logEvent e w = w\<lparr>loggedEvents := loggedEvents w @ [e]\<rparr>"

section \<open>The session state\<close>

text \<open>
  Of \<^verbatim>\<open>ClipperState\<close> (declared in \<^verbatim>\<open>./clipperState\<close>, not among the sources) the helper
  reads \<^verbatim>\<open>showRatingsPrompt.get()\<close>, a boolean or nothing, and
  \<^verbatim>\<open>clientInfo.clipperType\<close>.
\<close>

record ClientInfo =
  clipperType :: ClientType

record ClipperState =
  showRatingsPrompt :: "bool option"
  clientInfo :: ClientInfo

section \<open>The ratings helper\<close>

definition rateUrlSettingNameSuffix :: string where
  "rateUrlSettingNameSuffix = ''_RatingUrl''"

definition ratingsPromptEnabledSettingNameSuffix :: string where
  "ratingsPromptEnabledSettingNameSuffix = ''_RatingsEnabled''"

text \<open>String concatenation renders an \<^verbatim>\<open>undefined\<close> member name as \<^verbatim>\<open>"undefined"\<close>.\<close>

definition combineClientTypeAndSuffix :: "world \<Rightarrow> ClientType \<Rightarrow> string \<Rightarrow> string" where
  "combineClientTypeAndSuffix w clientType suffix =
     (case clientTypeNames w clientType of
        None \<Rightarrow> ''undefined''
      | Some name \<Rightarrow> name) @ suffix"

definition getRatingsPromptEnabledSettingNameForClient :: "world \<Rightarrow> ClientType \<Rightarrow> string" where
  "getRatingsPromptEnabledSettingNameForClient w clientType =
     combineClientTypeAndSuffix w clientType ratingsPromptEnabledSettingNameSuffix"

definition ratingsPromptEnabledForClient :: "world \<Rightarrow> ClientType \<Rightarrow> bool" where
  "ratingsPromptEnabledForClient w clientType =
     (let settingName = getRatingsPromptEnabledSettingNameForClient w clientType;
          isEnabledAsStr = getSetting w settingName
      in case isEnabledAsStr of
           None \<Rightarrow> False
         | Some str \<Rightarrow> toLowerCase str = ''true'')"

text \<open>
  \<^verbatim>\<open>setLastBadRating\<close>: the result and the world after the call.
\<close>

definition setLastBadRating ::
  "Settings_consts \<Rightarrow> string \<Rightarrow> string \<Rightarrow> world \<Rightarrow> bool \<times> world" where
  "setLastBadRating c badRatingDateToSetAsStr badRatingVersionToSet w =
     (let badDateKey = lastBadRatingDate;
          badRatingDateToSet = parseInt (Some badRatingDateToSetAsStr)
      in if \<not> isValidDate c badRatingDateToSet then (True, w)
         else if \<not> versionHasCorrectFormat (Some badRatingVersionToSet) then (True, w)
         else
           (let (lastBadRatingDateAsStr, w1) = getCachedValue badDateKey w;
                lastBadRatingDate' = parseInt lastBadRatingDateAsStr;
                badRatingAlreadyOccurred =
                  (\<not> isNaN lastBadRatingDate' \<and> isValidDate c lastBadRatingDate');
                w2 = setValue badDateKey badRatingDateToSetAsStr w1;
                w3 = setValue lastBadRatingVersion badRatingVersionToSet w2
            in (badRatingAlreadyOccurred, w3)))"

text \<open>
  \<^verbatim>\<open>shouldShowRatingsPromptInternal\<close> changes the event and the diagnostic fields it is
  given, and reads storage: it returns its result with the event, the fields and the
  world after the call. It has no statement that assigns to the session state.
\<close>

definition shouldShowRatingsPromptInternal ::
  "Settings_consts \<Rightarrow> ClipperState option \<Rightarrow> PromiseEvent \<Rightarrow> RatingsLoggingInfo \<Rightarrow> world
     \<Rightarrow> bool \<times> PromiseEvent \<times> RatingsLoggingInfo \<times> world" where
  "shouldShowRatingsPromptInternal c clipperState event logEventInfo w =
     (case clipperState of
        None \<Rightarrow>
          (False,
           event\<lparr>status := Failed,
                 failureInfo := Some ''Clipper state is null or undefined''\<rparr>,
           logEventInfo, w)
      | Some cs \<Rightarrow>
          (case showRatingsPrompt cs of
             Some cached \<Rightarrow>
               (cached, event, logEventInfo\<lparr>info_usedCachedValue := Some True\<rparr>, w)
           | None \<Rightarrow>
               (let ratingsPromptEnabled =
                      ratingsPromptEnabledForClient w (clipperType (clientInfo cs));
                    info1 = logEventInfo
                      \<lparr>info_ratingsPromptEnabledForClient := Some ratingsPromptEnabled\<rparr>
                in if \<not> ratingsPromptEnabled then (False, event, info1, w)
                   else
                     (let (doNotPromptRatingsStr, w1) = getCachedValue doNotPromptRatings w;
                          (lastBadRatingDateAsStr, w2) = getCachedValue lastBadRatingDate w1;
                          (lastBadRatingVersion', w3) = getCachedValue lastBadRatingVersion w2;
                          (lastSeenVersion', w4) = getCachedValue lastSeenVersion w3;
                          (numClipsAsStr, w5) = getCachedValue numSuccessfulClips w4
                      in if (case doNotPromptRatingsStr of
                               None \<Rightarrow> False
                             | Some str \<Rightarrow> toLowerCase str = ''true'')
                         then (False, event, info1\<lparr>info_doNotPromptRatings := Some True\<rparr>, w5)
                         else
                           (let lastBadRatingDate' = parseInt lastBadRatingDateAsStr;
                                numClips = parseInt numClipsAsStr;
                                info2 = info1
                                  \<lparr>info_lastBadRatingDate :=
                                     Some (if isNaN lastBadRatingDate' \<or>
                                              lastBadRatingDate' = Num 0
                                           then None else Some lastBadRatingDate'),
                                   info_lastBadRatingVersion := Some lastBadRatingVersion',
                                   info_lastSeenVersion := Some lastSeenVersion',
                                   info_numSuccessfulClips := Some numClips\<rparr>;
                                timingOver =
                                  badRatingTimingDelayIsOver c lastBadRatingDate' (Num (now w5));
                                versionOver =
                                  badRatingVersionDelayIsOver lastBadRatingVersion' lastSeenVersion';
                                clipOver = clipSuccessDelayIsOver c numClips;
                                info3 = info2
                                  \<lparr>info_badRatingTimingDelayIsOver := Some timingOver,
                                   info_badRatingVersionDelayIsOver := Some versionOver,
                                   info_clipSuccessDelayIsOver := Some clipOver\<rparr>
                            in if timingOver \<and> versionOver \<and> clipOver
                               then (True, event, info3, w5)
                               else (False, event, info3, w5))))))"

text \<open>
  \<^verbatim>\<open>shouldShowRatingsPrompt\<close>: the result, the session state after the call, and the
  world after the call. The session state comes back as it went in, since neither this
  function nor the internal one assigns to it.
\<close>

definition shouldShowRatingsPrompt ::
  "Settings_consts \<Rightarrow> ClipperState option \<Rightarrow> world
     \<Rightarrow> bool \<times> ClipperState option \<times> world" where
  "shouldShowRatingsPrompt c clipperState w =
     (let shouldShowRatingsPromptEvent = newPromiseEvent ShouldShowRatingsPrompt;
          shouldShowRatingsPromptInfo = emptyInfo;
          (shouldShow, event1, info1, w1) =
            shouldShowRatingsPromptInternal c clipperState
              shouldShowRatingsPromptEvent shouldShowRatingsPromptInfo w;
          event2 = event1\<lparr>custom_ShouldShowRatingsPrompt := Some shouldShow\<rparr>;
          event3 = event2\<lparr>custom_RatingsInfo := Some info1\<rparr>;
          w2 = logEvent event3 w1
      in (shouldShow, clipperState, w2))"

section \<open>The spec's reading of a well-formed version\<close>

text \<open>
  The spec's words for a well-formed version: exactly three dot-separated integer
  segments. A segment is an integer when it is a non-empty run of decimal digits, with
  or without a sign before it. This is the reading that \<^verbatim>\<open>versionHasCorrectFormat\<close> is
  compared with; it is not part of the code.
\<close>

definition spec_integerSegment :: "string \<Rightarrow> bool" where
  "spec_integerSegment seg =
     (let digits = (case seg of
                      [] \<Rightarrow> []
                    | c # r \<Rightarrow> if c = CHR ''-'' \<or> c = CHR ''+'' then r else seg)
      in digits \<noteq> [] \<and> list_all isDigit digits)"

definition spec_versionFormatValid :: "string \<Rightarrow> bool" where
  "spec_versionFormatValid v =
     (length (split_dot v) = 3 \<and> list_all spec_integerSegment (split_dot v))"

section \<open>Sample inputs\<close>

text \<open>
  Concrete values on which the theorems below are instantiated. The window of 3 to 10
  successful clips and the stored count \<^verbatim>\<open>"5"\<close> are the spec's end-to-end example.
\<close>

definition sampleSettings :: Settings_consts where
  "sampleSettings =
     \<lparr>maximumJSTimeValue = 8640000000000000, minTimeBetweenBadRatings = 6048000000,
      minClipSuccessForRatingsPrompt = 3, maxClipSuccessForRatingsPrompt = 10\<rparr>"

definition sampleWorld :: world where
  "sampleWorld =
     \<lparr>storageCache = [numSuccessfulClips \<mapsto> ''5''],
      storageReads = [], storageWrites = [],
      settings = [''ChromeExtension_RatingsEnabled'' \<mapsto> ''TRUE''],
      clientTypeNames = [1 \<mapsto> ''ChromeExtension''],
      now = 1477000000000, loggedEvents = []\<rparr>"

definition disabledWorld :: world where
  "disabledWorld = sampleWorld\<lparr>settings := Map.empty\<rparr>"

definition sampleSession :: ClipperState where
  "sampleSession = \<lparr>showRatingsPrompt = None, clientInfo = \<lparr>clipperType = 1\<rparr>\<rparr>"

definition cachedSession :: ClipperState where
  "cachedSession = \<lparr>showRatingsPrompt = Some True, clientInfo = \<lparr>clipperType = 1\<rparr>\<rparr>"

definition storedDateWorld :: world where
  "storedDateWorld = sampleWorld\<lparr>storageCache := [lastBadRatingDate \<mapsto> ''1470000000000'']\<rparr>"

text \<open>Two calls in a row in one session, the second on what the first left behind.\<close>

definition firstCall :: "bool \<times> ClipperState option \<times> world" where
  "firstCall = shouldShowRatingsPrompt sampleSettings (Some sampleSession) sampleWorld"

definition secondCall :: "bool \<times> ClipperState option \<times> world" where
  "secondCall = shouldShowRatingsPrompt sampleSettings (fst (snd firstCall)) (snd (snd firstCall))"

text \<open>A version whose major segment is a one followed by 309 zeros.\<close>

definition bigVersion :: string where
  "bigVersion = CHR ''1'' # replicate 309 (CHR ''0'') @ ''.0.0''"

section \<open>Basic facts\<close>

lemma isNaN_simps [simp]:
  "isNaN NaN" "\<not> isNaN (Num n)" "\<not> isNaN (Frac r)" "\<not> isNaN PInf" "\<not> isNaN NInf"
  by (simp_all add: isNaN_def)

lemma isNaN_iff: "isNaN x \<longleftrightarrow> x = NaN"
  by (cases x) simp_all

subsection \<open>Rounding and parsing\<close>

lemma roundInt_small:
  assumes "\<bar>n\<bar> < 2 ^ 53"
  shows "roundInt n = Num n"
proof -
  from assms have "bitlen \<bar>n\<bar> \<le> 53"
    by (simp add: bitlen_le_iff_power)
  then have k: "nat (bitlen \<bar>n\<bar> - 53) = 0" by simp
  have "(2::int) ^ 53 \<le> 2 ^ 1024"
    by (rule power_increasing) simp_all
  with assms have big: "\<not> (2::int) ^ 1024 \<le> \<bar>n\<bar>" by linarith
  have m: "(if n < 0 then - \<bar>n\<bar> else \<bar>n\<bar>) = n" by simp
  show ?thesis
    unfolding roundInt_def Let_def k
    using big m by (simp del: abs_if)
qed

lemma roundInt_huge:
  assumes "2 ^ 1024 \<le> n"
  shows "roundInt n = PInf"
proof -
  define B where "B = nat (bitlen n)"
  define k where "k = B - 53"
  have "(0::int) < 2 ^ 1024" by simp
  with assms have pos: "0 < n" by linarith
  have "1025 \<le> bitlen n"
    using assms by (simp add: bitlen_ge_iff_power)
  then have B: "1025 \<le> B" by (simp add: B_def)
  have kk: "nat (bitlen n - 53) = k"
    using pos by (simp add: k_def B_def nat_diff_distrib)
  have "nat (bitlen n - 1) = B - 1"
    by (simp add: B_def nat_diff_distrib)
  with bitlen_bounds [OF pos] have low: "(2::int) ^ (B - 1) \<le> n" by simp
  have split: "(2::int) ^ (B - 1) = 2 ^ 52 * 2 ^ k"
  proof -
    have "B - 1 = 52 + k" using B by (simp add: k_def)
    then show ?thesis by (simp only: power_add)
  qed
  have q: "(2::int) ^ 52 \<le> n div 2 ^ k"
  proof -
    have "(2::int) ^ 52 * 2 ^ k div 2 ^ k \<le> n div 2 ^ k"
      using low unfolding split by (intro zdiv_mono1) simp_all
    then show ?thesis by simp
  qed
  have big: "(2::int) ^ 1024 \<le> 2 ^ (B - 1)"
    using B by (intro power_increasing) simp_all
  have mq: "(2::int) ^ 1024 \<le> (n div 2 ^ k) * 2 ^ k"
  proof -
    have "(2::int) ^ 52 * 2 ^ k \<le> (n div 2 ^ k) * 2 ^ k"
      using q by (intro mult_right_mono) simp_all
    with big split show ?thesis by linarith
  qed
  have mq1: "(2::int) ^ 1024 \<le> (n div 2 ^ k + 1) * 2 ^ k"
  proof -
    have "(n div 2 ^ k) * 2 ^ k \<le> (n div 2 ^ k + 1) * (2::int) ^ k"
      by (intro mult_right_mono) simp_all
    with mq show ?thesis by linarith
  qed
  have abs: "\<bar>n\<bar> = n" using pos by simp
  show ?thesis
    unfolding roundInt_def Let_def abs kk
    using mq mq1 pos by simp
qed

lemma roundInt_not_NaN: "roundInt n \<noteq> NaN"
  by (simp add: roundInt_def Let_def)

lemma roundInt_not_Frac: "roundInt n \<noteq> Frac r"
  by (simp add: roundInt_def Let_def)

lemma parseInt_None: "parseInt None = NaN"
  by (simp add: parseInt_def)

lemma parseInt_not_Frac: "parseInt so \<noteq> Frac r"
  by (cases so) (simp_all add: parseInt_def Let_def roundInt_not_Frac)

lemmas parseInt_eval =
  parseInt_def isWhiteSpace_def isDigit_def digitsValue_def roundInt_small

lemma parseInt_NaN_iff:
  "(parseInt (Some seg) = NaN) =
     (takeWhile isDigit
        (case dropWhile isWhiteSpace seg of
           [] \<Rightarrow> []
         | c # r \<Rightarrow> if c = CHR ''-'' \<or> c = CHR ''+'' then r
                    else dropWhile isWhiteSpace seg) = [])"
  by (simp add: parseInt_def Let_def roundInt_not_NaN)

lemma takeWhile_digit_iff:
  "takeWhile isDigit u \<noteq> [] \<longleftrightarrow> (\<exists>d rest. u = d # rest \<and> isDigit d)"
  by (cases u) auto

lemma sign_not_digit: "\<not> isDigit (CHR ''-'')" "\<not> isDigit (CHR ''+'')"
  by (simp_all add: isDigit_def)

lemma parseInt_digit_iff:
  "(parseInt (Some seg) \<noteq> NaN) =
     (\<exists>d rest. isDigit d \<and>
        (dropWhile isWhiteSpace seg = d # rest \<or>
         dropWhile isWhiteSpace seg = CHR ''-'' # d # rest \<or>
         dropWhile isWhiteSpace seg = CHR ''+'' # d # rest))"
proof (cases "dropWhile isWhiteSpace seg")
  case Nil
  show ?thesis unfolding parseInt_NaN_iff Nil by simp
next
  case (Cons c r)
  show ?thesis
  proof (cases "c = CHR ''-'' \<or> c = CHR ''+''")
    case True
    with Cons have "(parseInt (Some seg) \<noteq> NaN) = (\<exists>d rest. r = d # rest \<and> isDigit d)"
      by (simp add: parseInt_NaN_iff takeWhile_digit_iff)
    with Cons True sign_not_digit show ?thesis by auto
  next
    case False
    with Cons have "(parseInt (Some seg) \<noteq> NaN) = isDigit c"
      by (simp add: parseInt_NaN_iff)
    with Cons False show ?thesis by auto
  qed
qed

lemma parseInt_rounded:
  "parseInt (Some ''9007199254740992'') = Num 9007199254740992"
  "parseInt (Some ''9007199254740993'') = Num 9007199254740992"
  by code_simp+

subsection \<open>Dates\<close>

lemma isValidDate_Num: "isValidDate c (Num x) = (\<bar>x\<bar> \<le> maximumJSTimeValue c)"
  by (auto simp: isValidDate_def num_ge_def)

lemma isValidDate_Frac: "isValidDate c (Frac r) = (\<bar>r\<bar> \<le> real_of_int (maximumJSTimeValue c))"
  by (auto simp: isValidDate_def num_ge_def)

lemma isValidDate_NaN: "\<not> isValidDate c NaN"
  by (simp add: isValidDate_def)

lemma isValidDate_Inf: "\<not> isValidDate c PInf" "\<not> isValidDate c NInf"
  by (simp_all add: isValidDate_def num_ge_def)

lemma length_three: "length xs = 3 \<longleftrightarrow> (\<exists>x y z. xs = [x, y, z])"
  by (auto simp: numeral_3_eq_3 length_Suc_conv)

lemma toLowerCase_TRUE: "toLowerCase ''TRUE'' = ''true''"
  by code_simp

subsection \<open>Version strings\<close>

lemma versionHasCorrectFormat_segments:
  assumes "versionHasCorrectFormat v"
  obtains s x y z where "v = Some s" and "split_dot s = [x, y, z]"
    and "parseInt (Some x) \<noteq> NaN" and "parseInt (Some y) \<noteq> NaN"
    and "parseInt (Some z) \<noteq> NaN"
proof -
  from assms obtain s where s: "v = Some s"
    by (cases v) (simp_all add: versionHasCorrectFormat_def)
  from assms s have len: "length (split_dot s) = 3"
    by (simp add: versionHasCorrectFormat_def Let_def split: if_splits)
  then obtain x y z where xyz: "split_dot s = [x, y, z]"
    by (auto simp: length_three)
  from assms s xyz have "parseInt (Some x) \<noteq> NaN" "parseInt (Some y) \<noteq> NaN"
      "parseInt (Some z) \<noteq> NaN"
    by (simp_all add: versionHasCorrectFormat_def index_def isNaN_iff split: if_splits)
  with s xyz show thesis by (rule that)
qed

lemma versionHasCorrectFormat_iff:
  "versionHasCorrectFormat (Some s) =
     (length (split_dot s) = 3 \<and> (\<forall>seg \<in> set (split_dot s). parseInt (Some seg) \<noteq> NaN))"
proof (cases "length (split_dot s) = 3")
  case False
  then show ?thesis by (simp add: versionHasCorrectFormat_def)
next
  case True
  then obtain x y z where xyz: "split_dot s = [x, y, z]"
    by (auto simp: length_three)
  show ?thesis
    by (simp add: versionHasCorrectFormat_def xyz index_def isNaN_iff)
qed

lemma getMajorVersion_segments:
  "split_dot s = [x, y, z] \<Longrightarrow> getMajorVersion (Some s) = Some (parseInt (Some x))"
  by (simp add: getMajorVersion_def index_def)

lemma getMinorVersion_segments:
  "split_dot s = [x, y, z] \<Longrightarrow> getMinorVersion (Some s) = Some (parseInt (Some y))"
  by (simp add: getMinorVersion_def index_def)

lemma badRatingVersionDelayIsOver_valid:
  assumes "versionHasCorrectFormat b" and "versionHasCorrectFormat l"
  shows "\<exists>bMajor bMinor lMajor lMinor.
           getMajorVersion b = Some bMajor \<and> getMinorVersion b = Some bMinor \<and>
           getMajorVersion l = Some lMajor \<and> getMinorVersion l = Some lMinor \<and>
           \<not> isNaN bMajor \<and> \<not> isNaN bMinor \<and> \<not> isNaN lMajor \<and> \<not> isNaN lMinor \<and>
           badRatingVersionDelayIsOver b l =
             (num_gt lMajor bMajor \<or> (num_eq lMajor bMajor \<and> num_gt lMinor bMinor))"
proof -
  from assms(1) obtain s x y z where
    b: "b = Some s" "split_dot s = [x, y, z]"
       "parseInt (Some x) \<noteq> NaN" "parseInt (Some y) \<noteq> NaN"
    by (rule versionHasCorrectFormat_segments)
  from assms(2) obtain s' x' y' z' where
    l: "l = Some s'" "split_dot s' = [x', y', z']"
       "parseInt (Some x') \<noteq> NaN" "parseInt (Some y') \<noteq> NaN"
    by (rule versionHasCorrectFormat_segments)
  have bM: "getMajorVersion b = Some (parseInt (Some x))"
    and bm: "getMinorVersion b = Some (parseInt (Some y))"
    using b by (simp_all add: getMajorVersion_segments getMinorVersion_segments)
  have lM: "getMajorVersion l = Some (parseInt (Some x'))"
    and lm: "getMinorVersion l = Some (parseInt (Some y'))"
    using l by (simp_all add: getMajorVersion_segments getMinorVersion_segments)
  have "badRatingVersionDelayIsOver b l =
          (num_gt (parseInt (Some x')) (parseInt (Some x)) \<or>
           (num_eq (parseInt (Some x')) (parseInt (Some x)) \<and>
            num_gt (parseInt (Some y')) (parseInt (Some y))))"
  proof -
    have "b \<noteq> None" using b(1) by simp
    with assms show ?thesis
      unfolding badRatingVersionDelayIsOver_def bM bm lM lm by (auto simp: Let_def)
  qed
  with bM bm lM lm b(3,4) l(3,4) show ?thesis by (simp add: isNaN_iff)
qed

lemmas version_eval =
  versionHasCorrectFormat_def getMajorVersion_def getMinorVersion_def index_def parseInt_eval

lemma sample_versions_valid:
  "versionHasCorrectFormat (Some ''1.2.0'')" "versionHasCorrectFormat (Some ''1.2.9'')"
  "versionHasCorrectFormat (Some ''1.3.0'')" "versionHasCorrectFormat (Some ''2.0.0'')"
  "versionHasCorrectFormat (Some ''3.0.0'')" "\<not> versionHasCorrectFormat (Some ''2.0'')"
  by (simp_all add: version_eval)

lemma sample_versions_major:
  "getMajorVersion (Some ''1.2.0'') = Some (Num 1)" "getMajorVersion (Some ''1.2.9'') = Some (Num 1)"
  "getMajorVersion (Some ''1.3.0'') = Some (Num 1)" "getMajorVersion (Some ''2.0.0'') = Some (Num 2)"
  by (simp_all add: version_eval)

lemma sample_versions_minor:
  "getMinorVersion (Some ''1.2.0'') = Some (Num 2)" "getMinorVersion (Some ''1.2.9'') = Some (Num 2)"
  "getMinorVersion (Some ''1.3.0'') = Some (Num 3)" "getMinorVersion (Some ''2.0.0'') = Some (Num 0)"
  by (simp_all add: version_eval)

lemma lenient_versions:
  "versionHasCorrectFormat (Some ''1.2.0-beta'')"
  "getMajorVersion (Some ''1.2.0-beta'') = Some (Num 1)"
  "getMinorVersion (Some ''1.2.0-beta'') = Some (Num 2)"
  "\<not> spec_versionFormatValid ''1.2.0-beta''"
  by code_simp+

lemma rounded_versions:
  "versionHasCorrectFormat (Some ''9007199254740992.0.0'')"
  "versionHasCorrectFormat (Some ''9007199254740993.0.0'')"
  "getMajorVersion (Some ''9007199254740992.0.0'') = Some (Num 9007199254740992)"
  "getMajorVersion (Some ''9007199254740993.0.0'') = Some (Num 9007199254740992)"
  "getMinorVersion (Some ''9007199254740992.0.0'') = Some (Num 0)"
  "getMinorVersion (Some ''9007199254740993.0.0'') = Some (Num 0)"
  by code_simp+

lemma foldl_digits_zeros:
  "foldl (\<lambda>acc c. 10 * acc + (int (of_char c) - 48)) acc (replicate n (CHR ''0'')) = acc * 10 ^ n"
  by (induction n arbitrary: acc) simp_all

lemma digitsValue_one_zeros:
  "digitsValue (CHR ''1'' # replicate n (CHR ''0'')) = 10 ^ n"
  by (simp add: digitsValue_def foldl_digits_zeros)

lemma parseInt_one_zeros:
  "parseInt (Some (CHR ''1'' # replicate n (CHR ''0''))) = roundInt (10 ^ n)"
proof -
  have d: "takeWhile isDigit (CHR ''1'' # replicate n (CHR ''0'')) =
      CHR ''1'' # replicate n (CHR ''0'')"
    by (simp add: isDigit_def)
  show ?thesis
    unfolding parseInt_def
    by (simp add: isWhiteSpace_def d digitsValue_one_zeros Let_def del: takeWhile.simps)
qed

lemma split_dot_append:
  "CHR ''.'' \<notin> set xs \<Longrightarrow> split_dot (xs @ CHR ''.'' # rest) = xs # split_dot rest"
  by (induction xs) auto

lemma bigVersion_split:
  "split_dot bigVersion = [CHR ''1'' # replicate 309 (CHR ''0''), ''0'', ''0'']"
proof -
  have e: "bigVersion = (CHR ''1'' # replicate 309 (CHR ''0'')) @ CHR ''.'' # ''0.0''"
    by (simp add: bigVersion_def)
  have nd: "CHR ''.'' \<notin> set (CHR ''1'' # replicate 309 (CHR ''0''))"
    by simp
  have z: "split_dot ''0.0'' = [''0'', ''0'']"
    by simp
  show ?thesis
    unfolding e split_dot_append [OF nd] z ..
qed

lemma ten_309: "(2::int) ^ 1024 \<le> 10 ^ 309"
  by simp

lemma bigVersion_parts:
  "versionHasCorrectFormat (Some bigVersion)"
  "getMajorVersion (Some bigVersion) = Some PInf"
  "getMinorVersion (Some bigVersion) = Some (Num 0)"
proof -
  have big: "parseInt (Some (CHR ''1'' # replicate 309 (CHR ''0''))) = PInf"
    unfolding parseInt_one_zeros by (rule roundInt_huge [OF ten_309])
  have zero: "parseInt (Some ''0'') = Num 0"
    by (simp add: parseInt_eval)
  show "versionHasCorrectFormat (Some bigVersion)"
    by (simp add: versionHasCorrectFormat_def bigVersion_split index_def big zero
       )
  show "getMajorVersion (Some bigVersion) = Some PInf"
    by (simp add: getMajorVersion_def bigVersion_split index_def big)
  show "getMinorVersion (Some bigVersion) = Some (Num 0)"
    by (simp add: getMinorVersion_def bigVersion_split index_def zero)
qed

subsection \<open>The evaluation of the prompt decision, branch by branch\<close>

lemma storageReads_logEvent [simp]: "storageReads (logEvent e w) = storageReads w"
  by (simp add: logEvent_def)

lemma internal_absent:
  "shouldShowRatingsPromptInternal c None e i w =
     (False, e\<lparr>status := Failed, failureInfo := Some ''Clipper state is null or undefined''\<rparr>,
      i, w)"
  by (simp add: shouldShowRatingsPromptInternal_def)

lemma internal_cached:
  "showRatingsPrompt cs = Some b \<Longrightarrow>
   shouldShowRatingsPromptInternal c (Some cs) e i w =
     (b, e, i\<lparr>info_usedCachedValue := Some True\<rparr>, w)"
  by (simp add: shouldShowRatingsPromptInternal_def)

lemma internal_disabled:
  "showRatingsPrompt cs = None \<Longrightarrow>
   \<not> ratingsPromptEnabledForClient w (clipperType (clientInfo cs)) \<Longrightarrow>
   shouldShowRatingsPromptInternal c (Some cs) e i w =
     (False, e, i\<lparr>info_ratingsPromptEnabledForClient := Some False\<rparr>, w)"
  by (simp add: shouldShowRatingsPromptInternal_def)

lemma internal_stored:
  assumes "showRatingsPrompt cs = None"
    and "ratingsPromptEnabledForClient w (clipperType (clientInfo cs))"
  shows "fst (shouldShowRatingsPromptInternal c (Some cs) e i w) =
           (if (case storageCache w doNotPromptRatings of
                  None \<Rightarrow> False
                | Some str \<Rightarrow> toLowerCase str = ''true'')
            then False
            else badRatingTimingDelayIsOver c
                   (parseInt (storageCache w lastBadRatingDate)) (Num (now w)) \<and>
                 badRatingVersionDelayIsOver
                   (storageCache w lastBadRatingVersion) (storageCache w lastSeenVersion) \<and>
                 clipSuccessDelayIsOver c (parseInt (storageCache w numSuccessfulClips)))"
    and "snd (snd (snd (shouldShowRatingsPromptInternal c (Some cs) e i w))) =
           w\<lparr>storageReads := storageReads w @
                [doNotPromptRatings, lastBadRatingDate, lastBadRatingVersion,
                 lastSeenVersion, numSuccessfulClips]\<rparr>"
  using assms
  by (simp_all add: shouldShowRatingsPromptInternal_def getCachedValue_def
        Let_def split: option.splits)

lemma shouldShow_result:
  "fst (shouldShowRatingsPrompt c s w) =
     fst (shouldShowRatingsPromptInternal c s (newPromiseEvent ShouldShowRatingsPrompt) emptyInfo w)"
  by (simp add: shouldShowRatingsPrompt_def Let_def split: prod.splits)

lemma shouldShow_session: "fst (snd (shouldShowRatingsPrompt c s w)) = s"
  by (simp add: shouldShowRatingsPrompt_def Let_def split: prod.splits)

lemma shouldShow_reads:
  "storageReads (snd (snd (shouldShowRatingsPrompt c s w))) =
     storageReads (snd (snd (snd
       (shouldShowRatingsPromptInternal c s (newPromiseEvent ShouldShowRatingsPrompt) emptyInfo w))))"
  by (simp add: shouldShowRatingsPrompt_def Let_def split: prod.splits)

lemmas enabled_eval =
  ratingsPromptEnabledForClient_def getRatingsPromptEnabledSettingNameForClient_def
  combineClientTypeAndSuffix_def ratingsPromptEnabledSettingNameSuffix_def getSetting_def

lemmas key_names =
  doNotPromptRatings_def lastBadRatingDate_def lastBadRatingVersion_def lastSeenVersion_def
  numSuccessfulClips_def

lemma sample_enabled: "ratingsPromptEnabledForClient sampleWorld 1"
  by (simp add: enabled_eval sampleWorld_def toLowerCase_TRUE)

lemma sample_disabled: "\<not> ratingsPromptEnabledForClient disabledWorld 1"
  by (simp add: enabled_eval sampleWorld_def disabledWorld_def)

lemma parseInt_5: "parseInt (Some ''5'') = Num 5"
  by (simp add: parseInt_eval)

subsection \<open>What a call leaves alone\<close>

lemma enabled_cong:
  "settings w' = settings w \<Longrightarrow> clientTypeNames w' = clientTypeNames w \<Longrightarrow>
   ratingsPromptEnabledForClient w' t = ratingsPromptEnabledForClient w t"
  by (simp add: enabled_eval)

lemma internal_frame:
  "settings (snd (snd (snd (shouldShowRatingsPromptInternal c s e i w)))) = settings w \<and>
   clientTypeNames (snd (snd (snd (shouldShowRatingsPromptInternal c s e i w)))) = clientTypeNames w \<and>
   storageCache (snd (snd (snd (shouldShowRatingsPromptInternal c s e i w)))) = storageCache w \<and>
   storageWrites (snd (snd (snd (shouldShowRatingsPromptInternal c s e i w)))) = storageWrites w \<and>
   now (snd (snd (snd (shouldShowRatingsPromptInternal c s e i w)))) = now w"
  by (simp add: shouldShowRatingsPromptInternal_def getCachedValue_def Let_def
      split: option.splits)

lemma shouldShow_world:
  "\<exists>ev. snd (snd (shouldShowRatingsPrompt c s w)) =
     logEvent ev (snd (snd (snd
       (shouldShowRatingsPromptInternal c s (newPromiseEvent ShouldShowRatingsPrompt) emptyInfo w))))"
  by (cases "shouldShowRatingsPromptInternal c s (newPromiseEvent ShouldShowRatingsPrompt)
        emptyInfo w")
     (auto simp: shouldShowRatingsPrompt_def Let_def)

lemma shouldShow_frame:
  "settings (snd (snd (shouldShowRatingsPrompt c s w))) = settings w \<and>
   clientTypeNames (snd (snd (shouldShowRatingsPrompt c s w))) = clientTypeNames w \<and>
   storageCache (snd (snd (shouldShowRatingsPrompt c s w))) = storageCache w \<and>
   storageWrites (snd (snd (shouldShowRatingsPrompt c s w))) = storageWrites w \<and>
   now (snd (snd (shouldShowRatingsPrompt c s w))) = now w"
proof -
  obtain ev where "snd (snd (shouldShowRatingsPrompt c s w)) =
     logEvent ev (snd (snd (snd
       (shouldShowRatingsPromptInternal c s (newPromiseEvent ShouldShowRatingsPrompt) emptyInfo w))))"
    using shouldShow_world by blast
  then show ?thesis
    using internal_frame [of c s "newPromiseEvent ShouldShowRatingsPrompt" emptyInfo w]
    by (simp add: logEvent_def)
qed

lemma shouldShow_reads_stored:
  assumes "showRatingsPrompt cs = None"
    and "ratingsPromptEnabledForClient w (clipperType (clientInfo cs))"
  shows "storageReads (snd (snd (shouldShowRatingsPrompt c (Some cs) w))) =
           storageReads w @ [doNotPromptRatings, lastBadRatingDate, lastBadRatingVersion,
             lastSeenVersion, numSuccessfulClips]"
  by (simp add: shouldShow_reads internal_stored(2) [OF assms])

subsection \<open>The sample inputs, field by field\<close>

lemma sampleWorld_fields:
  "storageReads sampleWorld = []" "storageWrites sampleWorld = []"
  "loggedEvents sampleWorld = []" "now sampleWorld = 1477000000000"
  "storageCache sampleWorld = [numSuccessfulClips \<mapsto> ''5'']"
  by (simp_all add: sampleWorld_def)

lemma disabledWorld_fields:
  "storageReads disabledWorld = []" "storageWrites disabledWorld = []"
  "loggedEvents disabledWorld = []"
  by (simp_all add: disabledWorld_def sampleWorld_def)

lemma storedDateWorld_fields:
  "storageWrites storedDateWorld = []"
  "storageCache storedDateWorld = [lastBadRatingDate \<mapsto> ''1470000000000'']"
  by (simp_all add: storedDateWorld_def sampleWorld_def)

section \<open>The claims\<close>

text \<open>
  C9. For every number \<open>d\<close>, \<^verbatim>\<open>isValidDate(d)\<close> is true iff the magnitude of \<open>d\<close> is at most
  \<^verbatim>\<open>maximumJSTimeValue\<close> (so never for \<^verbatim>\<open>NaN\<close> and never for an infinity); both bounds,
  \<open>+maximumJSTimeValue\<close> and \<open>-maximumJSTimeValue\<close>, are valid dates (the constant being a
  magnitude, not negative).
\<close>

theorem isValidDate_magnitude:
  "(isValidDate c d =
      (case d of
         NaN \<Rightarrow> False
       | Num x \<Rightarrow> \<bar>x\<bar> \<le> maximumJSTimeValue c
       | Frac r \<Rightarrow> \<bar>r\<bar> \<le> real_of_int (maximumJSTimeValue c)
       | PInf \<Rightarrow> False
       | NInf \<Rightarrow> False)) \<and>
   (0 \<le> maximumJSTimeValue c \<longrightarrow>
      isValidDate c (Num (maximumJSTimeValue c)) \<and>
      isValidDate c (Num (- maximumJSTimeValue c)))"
  by (cases d)
     (simp_all add: isValidDate_Num isValidDate_Frac isValidDate_NaN isValidDate_Inf)

theorem isValidDate_magnitude_witness:
  "isValidDate sampleSettings (Num 8640000000000000) \<and>
   isValidDate sampleSettings (Num (- 8640000000000000)) \<and>
   \<not> isValidDate sampleSettings (Num 8640000000000001) \<and>
   \<not> isValidDate sampleSettings (Frac 8640000000000000.5) \<and>
   \<not> isValidDate sampleSettings PInf \<and>
   \<not> isValidDate sampleSettings NaN"
  using isValidDate_magnitude [of sampleSettings "Num 8640000000000001"]
    isValidDate_magnitude [of sampleSettings "Frac 8640000000000000.5"]
    isValidDate_magnitude [of sampleSettings PInf]
    isValidDate_magnitude [of sampleSettings NaN]
  by (simp add: sampleSettings_def)

text \<open>
  C5. \<^verbatim>\<open>badRatingTimingDelayIsOver\<close> is true when the bad rating date is \<^verbatim>\<open>NaN\<close>, whatever
  the comparison date; otherwise it is false when one of the two dates fails the
  validity bound; otherwise it is true iff the comparison date minus the bad rating date
  is at least \<^verbatim>\<open>minTimeBetweenBadRatings\<close>. The first three parts speak of integer-valued
  dates, the last two of any two numbers, with the subtraction of the language.
\<close>

theorem badRatingTimingDelayIsOver_cases:
  "badRatingTimingDelayIsOver c NaN comparisonDate \<and>
   (\<not> isValidDate c (Num x) \<or> \<not> isValidDate c comparisonDate \<longrightarrow>
      \<not> badRatingTimingDelayIsOver c (Num x) comparisonDate) \<and>
   (isValidDate c (Num x) \<and> isValidDate c (Num y) \<longrightarrow>
      badRatingTimingDelayIsOver c (Num x) (Num y) = (y - x \<ge> minTimeBetweenBadRatings c)) \<and>
   (\<not> isNaN badRatingDate \<and>
    (\<not> isValidDate c badRatingDate \<or> \<not> isValidDate c comparisonDate) \<longrightarrow>
      \<not> badRatingTimingDelayIsOver c badRatingDate comparisonDate) \<and>
   (isValidDate c badRatingDate \<and> isValidDate c comparisonDate \<longrightarrow>
      badRatingTimingDelayIsOver c badRatingDate comparisonDate =
        num_ge (num_sub comparisonDate badRatingDate) (Num (minTimeBetweenBadRatings c)))"
proof -
  have "\<not> isNaN badRatingDate" if "isValidDate c badRatingDate"
    using that isValidDate_NaN [of c] by (auto simp: isNaN_iff)
  then show ?thesis
    by (auto simp: badRatingTimingDelayIsOver_def num_ge_def)
qed

theorem badRatingTimingDelayIsOver_cases_witness:
  "badRatingTimingDelayIsOver sampleSettings NaN NaN \<and>
   \<not> badRatingTimingDelayIsOver sampleSettings (Num 8640000000000001) (Num 1477000000000) \<and>
   \<not> badRatingTimingDelayIsOver sampleSettings (Num 1470000000000) NaN \<and>
   isValidDate sampleSettings (Num 1470000000000) \<and>
   isValidDate sampleSettings (Num 1477000000000) \<and>
   badRatingTimingDelayIsOver sampleSettings (Num 1470000000000) (Num 1477000000000) \<and>
   \<not> badRatingTimingDelayIsOver sampleSettings (Num 1476000000000) (Num 1477000000000) \<and>
   \<not> isNaN (Frac 0.5) \<and>
   \<not> badRatingTimingDelayIsOver sampleSettings (Frac 0.5) PInf \<and>
   \<not> badRatingTimingDelayIsOver sampleSettings (Frac 8640000000000000.5) (Num 1477000000000)"
  using
    badRatingTimingDelayIsOver_cases
      [where c = sampleSettings and comparisonDate = NaN and x = 1470000000000
         and y = 0 and badRatingDate = NaN]
    badRatingTimingDelayIsOver_cases
      [where c = sampleSettings and comparisonDate = "Num 1477000000000"
         and x = 8640000000000001 and y = 0 and badRatingDate = "Num 1470000000000"]
    badRatingTimingDelayIsOver_cases
      [where c = sampleSettings and comparisonDate = "Num 1477000000000"
         and x = 1476000000000 and y = 1477000000000 and badRatingDate = "Num 1476000000000"]
    badRatingTimingDelayIsOver_cases
      [where c = sampleSettings and comparisonDate = PInf
         and x = 0 and y = 0 and badRatingDate = "Frac 0.5"]
    badRatingTimingDelayIsOver_cases
      [where c = sampleSettings and comparisonDate = "Num 1477000000000"
         and x = 0 and y = 0 and badRatingDate = "Frac 8640000000000000.5"]
  by (simp add: isValidDate_Num isValidDate_Frac isValidDate_NaN isValidDate_Inf num_ge_def
      sampleSettings_def)

text \<open>
  C6 (amended). \<^verbatim>\<open>clipSuccessDelayIsOver(n)\<close> is false when \<open>n\<close> is \<^verbatim>\<open>NaN\<close>; for every
  other number it is true iff \<open>n\<close> lies between \<^verbatim>\<open>minClipSuccessForRatingsPrompt\<close> and
  \<^verbatim>\<open>maxClipSuccessForRatingsPrompt\<close>, both included (so it is false one below the lower
  bound, one above the upper bound, and for the infinities). It does not ask whether
  \<open>n\<close> is an integer or whether it is negative: a fraction inside the window gives true.
\<close>

theorem clipSuccessDelayIsOver_window:
  "\<not> clipSuccessDelayIsOver c NaN \<and>
   (clipSuccessDelayIsOver c (Num n) =
      (minClipSuccessForRatingsPrompt c \<le> n \<and> n \<le> maxClipSuccessForRatingsPrompt c)) \<and>
   (clipSuccessDelayIsOver c (Frac r) =
      (real_of_int (minClipSuccessForRatingsPrompt c) \<le> r \<and>
       r \<le> real_of_int (maxClipSuccessForRatingsPrompt c))) \<and>
   \<not> clipSuccessDelayIsOver c PInf \<and>
   \<not> clipSuccessDelayIsOver c NInf \<and>
   \<not> clipSuccessDelayIsOver c (Num (minClipSuccessForRatingsPrompt c - 1)) \<and>
   \<not> clipSuccessDelayIsOver c (Num (maxClipSuccessForRatingsPrompt c + 1)) \<and>
   (minClipSuccessForRatingsPrompt c < maxClipSuccessForRatingsPrompt c \<longrightarrow>
      clipSuccessDelayIsOver c (Frac (real_of_int (minClipSuccessForRatingsPrompt c) + 1 / 2)))"
  by (simp add: clipSuccessDelayIsOver_def num_ge_def)

theorem clipSuccessDelayIsOver_window_witness:
  "clipSuccessDelayIsOver sampleSettings (Num 3) \<and>
   clipSuccessDelayIsOver sampleSettings (Num 10) \<and>
   \<not> clipSuccessDelayIsOver sampleSettings (Num 2) \<and>
   \<not> clipSuccessDelayIsOver sampleSettings (Num 11) \<and>
   minClipSuccessForRatingsPrompt sampleSettings < maxClipSuccessForRatingsPrompt sampleSettings \<and>
   clipSuccessDelayIsOver sampleSettings (Frac (real_of_int 3 + 1 / 2)) \<and>
   \<not> clipSuccessDelayIsOver sampleSettings (Frac 10.5) \<and>
   \<not> clipSuccessDelayIsOver sampleSettings NaN"
  using clipSuccessDelayIsOver_window [where c = sampleSettings and n = 3 and r = "10.5"]
    clipSuccessDelayIsOver_window [where c = sampleSettings and n = 10 and r = "10.5"]
  by (simp add: sampleSettings_def)

text \<open>
  The claim as it was stated fails: three and a half is not an integer, and with a
  window of 3 to 10 clips the answer for it is true.
\<close>

theorem clipSuccessDelayIsOver_fraction_counterexample:
  "real_of_int \<lfloor>3.5 :: real\<rfloor> \<noteq> 3.5 \<and>
   minClipSuccessForRatingsPrompt sampleSettings = 3 \<and>
   maxClipSuccessForRatingsPrompt sampleSettings = 10 \<and>
   clipSuccessDelayIsOver sampleSettings (Frac 3.5)"
  by (simp add: clipSuccessDelayIsOver_def num_ge_def sampleSettings_def)

text \<open>
  C4 (amended). \<^verbatim>\<open>badRatingVersionDelayIsOver\<close> is true when the bad rating version is
  absent; otherwise it is false when one of the two versions fails
  \<^verbatim>\<open>versionHasCorrectFormat\<close>, that is, does not split at its dots into exactly three
  segments each of which \<^verbatim>\<open>parseInt\<close> turns into a number (a segment passes as soon as,
  after white space and one sign, it begins with a decimal digit: what follows the
  digits is not looked at); otherwise it is true iff the major of the last seen version
  is greater than the major of the bad rating version, or the majors are equal and the
  minor of the last seen version is greater, major and minor being the numbers that
  \<^verbatim>\<open>getMajorVersion\<close> and \<^verbatim>\<open>getMinorVersion\<close> return (doubles: rounded from \<open>2 ^ 53\<close> on). The
  patch segment has no part in the comparison: two pairs of accepted versions with the
  same majors and minors get the same answer.
\<close>

theorem badRatingVersionDelayIsOver_cases:
  "badRatingVersionDelayIsOver None lastSeen \<and>
   (\<not> versionHasCorrectFormat (Some b) \<or> \<not> versionHasCorrectFormat lastSeen \<longrightarrow>
      \<not> badRatingVersionDelayIsOver (Some b) lastSeen) \<and>
   (versionHasCorrectFormat (Some b) \<and> versionHasCorrectFormat lastSeen \<longrightarrow>
      (\<exists>bMajor bMinor lMajor lMinor.
         getMajorVersion (Some b) = Some bMajor \<and>
         getMinorVersion (Some b) = Some bMinor \<and>
         getMajorVersion lastSeen = Some lMajor \<and>
         getMinorVersion lastSeen = Some lMinor \<and>
         \<not> isNaN bMajor \<and> \<not> isNaN bMinor \<and> \<not> isNaN lMajor \<and> \<not> isNaN lMinor \<and>
         badRatingVersionDelayIsOver (Some b) lastSeen =
           (num_gt lMajor bMajor \<or> (num_eq lMajor bMajor \<and> num_gt lMinor bMinor)))) \<and>
   (versionHasCorrectFormat (Some b) \<and> versionHasCorrectFormat lastSeen \<and>
    versionHasCorrectFormat (Some b') \<and> versionHasCorrectFormat lastSeen' \<and>
    getMajorVersion (Some b') = getMajorVersion (Some b) \<and>
    getMinorVersion (Some b') = getMinorVersion (Some b) \<and>
    getMajorVersion lastSeen' = getMajorVersion lastSeen \<and>
    getMinorVersion lastSeen' = getMinorVersion lastSeen \<longrightarrow>
      badRatingVersionDelayIsOver (Some b') lastSeen' =
      badRatingVersionDelayIsOver (Some b) lastSeen) \<and>
   (versionHasCorrectFormat (Some b) =
      (length (split_dot b) = 3 \<and>
       (\<forall>seg \<in> set (split_dot b). parseInt (Some seg) \<noteq> NaN))) \<and>
   ((parseInt (Some seg) \<noteq> NaN) =
      (\<exists>d rest. isDigit d \<and>
         (dropWhile isWhiteSpace seg = d # rest \<or>
          dropWhile isWhiteSpace seg = CHR ''-'' # d # rest \<or>
          dropWhile isWhiteSpace seg = CHR ''+'' # d # rest)))"
proof (intro conjI impI)
  show "badRatingVersionDelayIsOver None lastSeen"
    by (simp add: badRatingVersionDelayIsOver_def)
  show "\<not> badRatingVersionDelayIsOver (Some b) lastSeen"
    if "\<not> versionHasCorrectFormat (Some b) \<or> \<not> versionHasCorrectFormat lastSeen"
    using that by (auto simp: badRatingVersionDelayIsOver_def)
  show "\<exists>bMajor bMinor lMajor lMinor.
         getMajorVersion (Some b) = Some bMajor \<and>
         getMinorVersion (Some b) = Some bMinor \<and>
         getMajorVersion lastSeen = Some lMajor \<and>
         getMinorVersion lastSeen = Some lMinor \<and>
         \<not> isNaN bMajor \<and> \<not> isNaN bMinor \<and> \<not> isNaN lMajor \<and> \<not> isNaN lMinor \<and>
         badRatingVersionDelayIsOver (Some b) lastSeen =
           (num_gt lMajor bMajor \<or> (num_eq lMajor bMajor \<and> num_gt lMinor bMinor))"
    if "versionHasCorrectFormat (Some b) \<and> versionHasCorrectFormat lastSeen"
    using that badRatingVersionDelayIsOver_valid [of "Some b" lastSeen] by blast
  show "badRatingVersionDelayIsOver (Some b') lastSeen' =
        badRatingVersionDelayIsOver (Some b) lastSeen"
    if h: "versionHasCorrectFormat (Some b) \<and> versionHasCorrectFormat lastSeen \<and>
      versionHasCorrectFormat (Some b') \<and> versionHasCorrectFormat lastSeen' \<and>
      getMajorVersion (Some b') = getMajorVersion (Some b) \<and>
      getMinorVersion (Some b') = getMinorVersion (Some b) \<and>
      getMajorVersion lastSeen' = getMajorVersion lastSeen \<and>
      getMinorVersion lastSeen' = getMinorVersion lastSeen"
  proof -
    from h badRatingVersionDelayIsOver_valid [of "Some b" lastSeen]
      badRatingVersionDelayIsOver_valid [of "Some b'" lastSeen']
    show ?thesis by auto
  qed
  show "versionHasCorrectFormat (Some b) =
      (length (split_dot b) = 3 \<and>
       (\<forall>seg \<in> set (split_dot b). parseInt (Some seg) \<noteq> NaN))"
    by (rule versionHasCorrectFormat_iff)
  show "(parseInt (Some seg) \<noteq> NaN) =
      (\<exists>d rest. isDigit d \<and>
         (dropWhile isWhiteSpace seg = d # rest \<or>
          dropWhile isWhiteSpace seg = CHR ''-'' # d # rest \<or>
          dropWhile isWhiteSpace seg = CHR ''+'' # d # rest))"
    by (rule parseInt_digit_iff)
qed

theorem badRatingVersionDelayIsOver_cases_witness:
  "badRatingVersionDelayIsOver None (Some ''2.0.0'') \<and>
   \<not> versionHasCorrectFormat (Some ''2.0'') \<and>
   \<not> badRatingVersionDelayIsOver (Some ''2.0'') (Some ''3.0.0'') \<and>
   versionHasCorrectFormat (Some ''1.2.0'') \<and>
   versionHasCorrectFormat (Some ''2.0.0'') \<and>
   badRatingVersionDelayIsOver (Some ''1.2.0'') (Some ''2.0.0'') \<and>
   badRatingVersionDelayIsOver (Some ''1.2.0'') (Some ''1.3.0'') \<and>
   \<not> badRatingVersionDelayIsOver (Some ''1.2.0'') (Some ''1.2.9'') \<and>
   badRatingVersionDelayIsOver (Some ''1.2.9'') (Some ''1.3.0'') \<and>
   \<not> badRatingVersionDelayIsOver (Some ''9007199254740992.0.0'')
       (Some ''9007199254740993.0.0'')"
  using
    badRatingVersionDelayIsOver_cases
      [where b = "''2.0''" and lastSeen = "Some ''3.0.0''"
         and b' = "''2.0''" and lastSeen' = "Some ''3.0.0''" and seg = "''0''"]
    badRatingVersionDelayIsOver_cases
      [where b = "''1.2.0''" and lastSeen = "Some ''2.0.0''"
         and b' = "''1.2.0''" and lastSeen' = "Some ''2.0.0''" and seg = "''0''"]
    badRatingVersionDelayIsOver_cases
      [where b = "''1.2.0''" and lastSeen = "Some ''1.3.0''"
         and b' = "''1.2.9''" and lastSeen' = "Some ''1.3.0''" and seg = "''0''"]
    badRatingVersionDelayIsOver_cases
      [where b = "''1.2.0''" and lastSeen = "Some ''1.2.9''"
         and b' = "''1.2.0''" and lastSeen' = "Some ''1.2.9''" and seg = "''0''"]
    badRatingVersionDelayIsOver_cases
      [where b = "''9007199254740992.0.0''" and lastSeen = "Some ''9007199254740993.0.0''"
         and b' = "''9007199254740992.0.0''" and lastSeen' = "Some ''9007199254740993.0.0''"
         and seg = "''0''"]
  by (simp add: sample_versions_valid sample_versions_major sample_versions_minor
      rounded_versions num_gt_def)

text \<open>
  The claim as it was stated fails: \<^verbatim>\<open>"1.2.0-beta"\<close> is not made of three integer
  segments, yet the code accepts it and answers true against \<^verbatim>\<open>"1.3.0"\<close>, where the
  claim says false.
\<close>

theorem badRatingVersionDelayIsOver_lenient_counterexample:
  "\<not> spec_versionFormatValid ''1.2.0-beta'' \<and>
   versionHasCorrectFormat (Some ''1.2.0-beta'') \<and>
   badRatingVersionDelayIsOver (Some ''1.2.0-beta'') (Some ''1.3.0'')"
proof -
  have "badRatingVersionDelayIsOver (Some ''1.2.0-beta'') (Some ''1.3.0'')"
    unfolding badRatingVersionDelayIsOver_def
    by (simp add: lenient_versions sample_versions_valid sample_versions_major
        sample_versions_minor num_gt_def)
  with lenient_versions show ?thesis by simp
qed

text \<open>
  C10 (amended). For a version that \<^verbatim>\<open>versionHasCorrectFormat\<close> accepts,
  \<^verbatim>\<open>getMajorVersion\<close> and \<^verbatim>\<open>getMinorVersion\<close> do not fall off their end (the result is not
  \<open>None\<close>) and return what \<^verbatim>\<open>parseInt\<close> makes of the first and of the second segment: a
  number that is not \<^verbatim>\<open>NaN\<close> and not a fraction, that is, an integer-valued double (the
  integer that the digits spell, rounded from \<open>2 ^ 53\<close> on) or an infinity, when the
  digits spell more than a double can hold.
\<close>

theorem version_parts_defined:
  assumes "versionHasCorrectFormat v"
  shows "\<exists>s major minor.
           v = Some s \<and>
           getMajorVersion v = Some major \<and>
           getMinorVersion v = Some minor \<and>
           parseInt (index (split_dot s) 0) = major \<and>
           parseInt (index (split_dot s) 1) = minor \<and>
           \<not> isNaN major \<and> \<not> isNaN minor \<and>
           (case major of Num _ \<Rightarrow> True | PInf \<Rightarrow> True | NInf \<Rightarrow> True | _ \<Rightarrow> False) \<and>
           (case minor of Num _ \<Rightarrow> True | PInf \<Rightarrow> True | NInf \<Rightarrow> True | _ \<Rightarrow> False)"
proof -
  from assms obtain s x y z where
    s: "v = Some s" "split_dot s = [x, y, z]"
    "parseInt (Some x) \<noteq> NaN" "parseInt (Some y) \<noteq> NaN"
    by (rule versionHasCorrectFormat_segments)
  have shape:
    "(case parseInt (Some t) of Num _ \<Rightarrow> True | PInf \<Rightarrow> True | NInf \<Rightarrow> True | _ \<Rightarrow> False)"
    if "parseInt (Some t) \<noteq> NaN" for t
    using that parseInt_not_Frac [of "Some t"] by (cases "parseInt (Some t)") auto
  from s shape [OF s(3)] shape [OF s(4)] show ?thesis
    by (simp add: getMajorVersion_def getMinorVersion_def index_def isNaN_iff)
qed

theorem version_parts_defined_witness:
  "versionHasCorrectFormat (Some ''1.2.0'') \<and>
   getMajorVersion (Some ''1.2.0'') = Some (Num 1) \<and>
   getMinorVersion (Some ''1.2.0'') = Some (Num 2) \<and>
   parseInt (index (split_dot ''1.2.0'') 0) = Num 1 \<and>
   parseInt (index (split_dot ''1.2.0'') 1) = Num 2"
  using version_parts_defined [of "Some ''1.2.0''"]
  by (simp add: sample_versions_valid sample_versions_major sample_versions_minor)

text \<open>
  The claim as it was stated fails: for an accepted version whose major segment is a one
  followed by 309 zeros the major is \<^verbatim>\<open>Infinity\<close>, which is no integer; and the major of
  \<^verbatim>\<open>"9007199254740993.0.0"\<close> is 9007199254740992, not the integer that its first segment
  spells.
\<close>

theorem version_parts_infinite_counterexample:
  "versionHasCorrectFormat (Some bigVersion) \<and>
   getMajorVersion (Some bigVersion) = Some PInf \<and>
   versionHasCorrectFormat (Some ''9007199254740993.0.0'') \<and>
   getMajorVersion (Some ''9007199254740993.0.0'') = Some (Num 9007199254740992)"
  by (simp add: bigVersion_parts rounded_versions)

text \<open>
  C2. An evaluation that reaches the stored values (the session is there, holds no
  cached decision, and the prompt is enabled for its client) answers false when the
  stored do-not-prompt flag, in lower case, is \<^verbatim>\<open>"true"\<close>, whatever else is stored;
  otherwise it answers true iff the timing delay, the version delay and the clip count
  delay are all over, each computed from the stored values and the current time.
\<close>

theorem stored_state_decision:
  assumes "showRatingsPrompt cs = None"
    and "ratingsPromptEnabledForClient w (clipperType (clientInfo cs))"
  shows "fst (shouldShowRatingsPrompt c (Some cs) w) =
           (if (case storageCache w doNotPromptRatings of
                  None \<Rightarrow> False
                | Some str \<Rightarrow> toLowerCase str = ''true'')
            then False
            else badRatingTimingDelayIsOver c
                   (parseInt (storageCache w lastBadRatingDate)) (Num (now w)) \<and>
                 badRatingVersionDelayIsOver
                   (storageCache w lastBadRatingVersion) (storageCache w lastSeenVersion) \<and>
                 clipSuccessDelayIsOver c (parseInt (storageCache w numSuccessfulClips)))"
  using internal_stored(1) [OF assms] by (simp add: shouldShow_result)

theorem stored_state_decision_witness:
  "showRatingsPrompt sampleSession = None \<and>
   ratingsPromptEnabledForClient sampleWorld (clipperType (clientInfo sampleSession)) \<and>
   fst (shouldShowRatingsPrompt sampleSettings (Some sampleSession) sampleWorld) = True \<and>
   fst (shouldShowRatingsPrompt sampleSettings (Some sampleSession)
          (sampleWorld\<lparr>storageCache := [numSuccessfulClips \<mapsto> ''5'',
                                        doNotPromptRatings \<mapsto> ''TRUE'']\<rparr>)) = False"
proof -
  have s: "showRatingsPrompt sampleSession = None"
    by (simp add: sampleSession_def)
  have e: "ratingsPromptEnabledForClient sampleWorld (clipperType (clientInfo sampleSession))"
    using sample_enabled by (simp add: sampleSession_def)
  let ?w = "sampleWorld\<lparr>storageCache := [numSuccessfulClips \<mapsto> ''5'',
                                        doNotPromptRatings \<mapsto> ''TRUE'']\<rparr>"
  have e': "ratingsPromptEnabledForClient ?w (clipperType (clientInfo sampleSession))"
    using e by (simp add: enabled_eval)
  have "fst (shouldShowRatingsPrompt sampleSettings (Some sampleSession) sampleWorld) = True"
    using stored_state_decision [OF s e, of sampleSettings]
    by (simp add: sampleWorld_def sampleSettings_def key_names parseInt_5 parseInt_None
        badRatingTimingDelayIsOver_def badRatingVersionDelayIsOver_def
        clipSuccessDelayIsOver_def num_ge_def)
  moreover have "fst (shouldShowRatingsPrompt sampleSettings (Some sampleSession) ?w) = False"
    using stored_state_decision [OF s e', of sampleSettings]
    by (simp add: toLowerCase_TRUE)
  ultimately show ?thesis using s e by simp
qed

text \<open>
  C3. \<^verbatim>\<open>setLastBadRating(dateString, versionString)\<close>: when the parsed date fails the
  validity bound or the version has not the correct format, the call returns true and
  leaves the world as it was (no storage write). Otherwise it returns true iff a
  \<^verbatim>\<open>lastBadRatingDate\<close> was stored before and parses to a valid date, and it writes the
  new date under \<^verbatim>\<open>lastBadRatingDate\<close> and then the new version under
  \<^verbatim>\<open>lastBadRatingVersion\<close> (exactly these two writes), over what was stored there.
\<close>

theorem setLastBadRating_cases:
  "(\<not> isValidDate c (parseInt (Some dateStr)) \<or> \<not> versionHasCorrectFormat (Some version) \<longrightarrow>
      setLastBadRating c dateStr version w = (True, w)) \<and>
   (isValidDate c (parseInt (Some dateStr)) \<and> versionHasCorrectFormat (Some version) \<longrightarrow>
      fst (setLastBadRating c dateStr version w) =
        (case storageCache w lastBadRatingDate of
           None \<Rightarrow> False
         | Some stored \<Rightarrow> isValidDate c (parseInt (Some stored))) \<and>
      storageWrites (snd (setLastBadRating c dateStr version w)) =
        storageWrites w @ [(lastBadRatingDate, dateStr), (lastBadRatingVersion, version)] \<and>
      storageCache (snd (setLastBadRating c dateStr version w)) =
        (storageCache w)(lastBadRatingDate \<mapsto> dateStr, lastBadRatingVersion \<mapsto> version))"
proof (intro conjI impI)
  show "setLastBadRating c dateStr version w = (True, w)"
    if "\<not> isValidDate c (parseInt (Some dateStr)) \<or> \<not> versionHasCorrectFormat (Some version)"
    using that by (auto simp: setLastBadRating_def Let_def)
next
  assume ok: "isValidDate c (parseInt (Some dateStr)) \<and> versionHasCorrectFormat (Some version)"
  then have eq: "setLastBadRating c dateStr version w =
      (\<not> isNaN (parseInt (storageCache w lastBadRatingDate)) \<and>
         isValidDate c (parseInt (storageCache w lastBadRatingDate)),
       setValue lastBadRatingVersion version
         (setValue lastBadRatingDate dateStr
            (w\<lparr>storageReads := storageReads w @ [lastBadRatingDate]\<rparr>)))"
    by (simp add: setLastBadRating_def Let_def getCachedValue_def)
  show "fst (setLastBadRating c dateStr version w) =
        (case storageCache w lastBadRatingDate of
           None \<Rightarrow> False
         | Some stored \<Rightarrow> isValidDate c (parseInt (Some stored)))"
    unfolding eq
    by (cases "storageCache w lastBadRatingDate")
       (auto simp: parseInt_None isValidDate_NaN isNaN_iff)
  show "storageWrites (snd (setLastBadRating c dateStr version w)) =
        storageWrites w @ [(lastBadRatingDate, dateStr), (lastBadRatingVersion, version)]"
    unfolding eq by (simp add: setValue_def)
  show "storageCache (snd (setLastBadRating c dateStr version w)) =
        (storageCache w)(lastBadRatingDate \<mapsto> dateStr, lastBadRatingVersion \<mapsto> version)"
    unfolding eq by (simp add: setValue_def)
qed

theorem setLastBadRating_cases_witness:
  "setLastBadRating sampleSettings ''not-a-number'' ''1.0.0'' sampleWorld = (True, sampleWorld) \<and>
   setLastBadRating sampleSettings ''1476000000000'' ''1.0'' sampleWorld = (True, sampleWorld) \<and>
   isValidDate sampleSettings (parseInt (Some ''1476000000000'')) \<and>
   versionHasCorrectFormat (Some ''3.2.0'') \<and>
   fst (setLastBadRating sampleSettings ''1476000000000'' ''3.2.0'' sampleWorld) = False \<and>
   storageWrites (snd (setLastBadRating sampleSettings ''1476000000000'' ''3.2.0'' sampleWorld)) =
     [(lastBadRatingDate, ''1476000000000''), (lastBadRatingVersion, ''3.2.0'')] \<and>
   fst (setLastBadRating sampleSettings ''1476000000000'' ''3.2.0'' storedDateWorld) = True \<and>
   storageCache (snd (setLastBadRating sampleSettings ''1476000000000'' ''3.2.0'' storedDateWorld))
     lastBadRatingDate = Some ''1476000000000''"
proof -
  have p: "parseInt (Some ''not-a-number'') = NaN"
    "parseInt (Some ''1476000000000'') = Num 1476000000000"
    "parseInt (Some ''1470000000000'') = Num 1470000000000"
    by (simp_all add: parseInt_eval)
  have v: "\<not> versionHasCorrectFormat (Some ''1.0'')" "versionHasCorrectFormat (Some ''1.0.0'')"
    "versionHasCorrectFormat (Some ''3.2.0'')"
    by (simp_all add: version_eval)
  have d: "isValidDate sampleSettings (Num 1476000000000)"
    "isValidDate sampleSettings (Num 1470000000000)"
    by (simp_all add: isValidDate_Num sampleSettings_def)
  have d': "isValidDate sampleSettings (parseInt (Some ''1476000000000''))"
    by (simp add: p d)
  have a: "setLastBadRating sampleSettings ''not-a-number'' ''1.0.0'' sampleWorld =
      (True, sampleWorld)"
    using setLastBadRating_cases [of sampleSettings "''not-a-number''" "''1.0.0''" sampleWorld]
    by (simp add: p isValidDate_NaN)
  have b: "setLastBadRating sampleSettings ''1476000000000'' ''1.0'' sampleWorld =
      (True, sampleWorld)"
    using setLastBadRating_cases [of sampleSettings "''1476000000000''" "''1.0''" sampleWorld]
    by (simp add: v)
  have none: "storageCache sampleWorld lastBadRatingDate = None"
    by (simp add: sampleWorld_def key_names)
  have some: "storageCache storedDateWorld lastBadRatingDate = Some ''1470000000000''"
    by (simp add: storedDateWorld_def)
  note fresh = setLastBadRating_cases
    [of sampleSettings "''1476000000000''" "''3.2.0''" sampleWorld, THEN conjunct2, rule_format,
     OF conjI [OF d' v(3)]]
  note again = setLastBadRating_cases
    [of sampleSettings "''1476000000000''" "''3.2.0''" storedDateWorld, THEN conjunct2,
     rule_format, OF conjI [OF d' v(3)]]
  have c1: "fst (setLastBadRating sampleSettings ''1476000000000'' ''3.2.0'' sampleWorld) = False"
    using fresh [THEN conjunct1] by (simp add: none)
  have c2: "storageWrites (snd (setLastBadRating sampleSettings ''1476000000000'' ''3.2.0''
        sampleWorld)) =
      [(lastBadRatingDate, ''1476000000000''), (lastBadRatingVersion, ''3.2.0'')]"
    using fresh [THEN conjunct2, THEN conjunct1] by (simp add: sampleWorld_fields)
  have e1: "fst (setLastBadRating sampleSettings ''1476000000000'' ''3.2.0'' storedDateWorld) = True"
    using again [THEN conjunct1] by (simp add: some p d)
  have e2: "storageCache (snd (setLastBadRating sampleSettings ''1476000000000'' ''3.2.0''
        storedDateWorld)) lastBadRatingDate = Some ''1476000000000''"
    unfolding again [THEN conjunct2, THEN conjunct2] by (simp add: key_names)
  from a b d' v(3) c1 c2 e1 e2 show ?thesis by blast
qed


text \<open>
  C1 (amended). No call of \<^verbatim>\<open>shouldShowRatingsPrompt\<close> writes the session state: the
  session comes back exactly as it went in, so a session without a cached decision is
  still without one after the call, which only returns the decision it computed (it is
  the caller that may store it). For a session that holds a cached decision the call
  returns that decision and reads nothing from storage.
\<close>

theorem session_state_not_written:
  "fst (snd (shouldShowRatingsPrompt c session w)) = session \<and>
   (showRatingsPrompt cs = Some cached \<longrightarrow>
      fst (shouldShowRatingsPrompt c (Some cs) w) = cached \<and>
      storageReads (snd (snd (shouldShowRatingsPrompt c (Some cs) w))) = storageReads w)"
  by (simp add: shouldShow_session shouldShow_result shouldShow_reads internal_cached)

theorem session_state_not_written_witness:
  "fst (snd (shouldShowRatingsPrompt sampleSettings (Some sampleSession) sampleWorld)) =
     Some sampleSession \<and>
   showRatingsPrompt cachedSession = Some True \<and>
   fst (shouldShowRatingsPrompt sampleSettings (Some cachedSession) sampleWorld) = True \<and>
   storageReads (snd (snd (shouldShowRatingsPrompt sampleSettings (Some cachedSession) sampleWorld)))
     = []"
  using
    session_state_not_written [where c = sampleSettings and session = "Some sampleSession"
      and w = sampleWorld and cs = cachedSession and cached = True]
  by (simp add: cachedSession_def sampleWorld_fields)

text \<open>
  The claim as it was stated fails: after a call on a session without a cached decision
  the session still has none, and a second call in that session reads the five stored
  values again.
\<close>

theorem session_state_written_counterexample:
  "showRatingsPrompt sampleSession = None \<and>
   fst firstCall = True \<and>
   map_option showRatingsPrompt (fst (snd firstCall)) = Some None \<and>
   storageReads (snd (snd firstCall)) =
     [doNotPromptRatings, lastBadRatingDate, lastBadRatingVersion, lastSeenVersion,
      numSuccessfulClips] \<and>
   storageReads (snd (snd secondCall)) =
     [doNotPromptRatings, lastBadRatingDate, lastBadRatingVersion, lastSeenVersion,
      numSuccessfulClips,
      doNotPromptRatings, lastBadRatingDate, lastBadRatingVersion, lastSeenVersion,
      numSuccessfulClips]"
proof -
  have s: "showRatingsPrompt sampleSession = None"
    by (simp add: sampleSession_def)
  have e: "ratingsPromptEnabledForClient sampleWorld (clipperType (clientInfo sampleSession))"
    using sample_enabled by (simp add: sampleSession_def)
  have r: "fst firstCall = True"
    unfolding firstCall_def shouldShow_result internal_stored(1) [OF s e]
    by (simp add: sampleWorld_def sampleSettings_def key_names parseInt_5 parseInt_None
        badRatingTimingDelayIsOver_def badRatingVersionDelayIsOver_def
        clipSuccessDelayIsOver_def num_ge_def)
  have st: "fst (snd firstCall) = Some sampleSession"
    by (simp add: firstCall_def shouldShow_session)
  have r1: "storageReads (snd (snd firstCall)) =
     [doNotPromptRatings, lastBadRatingDate, lastBadRatingVersion, lastSeenVersion,
      numSuccessfulClips]"
    unfolding firstCall_def shouldShow_reads_stored [OF s e] by (simp add: sampleWorld_fields)
  have e2: "ratingsPromptEnabledForClient (snd (snd firstCall))
              (clipperType (clientInfo sampleSession))"
    using e shouldShow_frame [of sampleSettings "Some sampleSession" sampleWorld]
      enabled_cong [of "snd (snd firstCall)" sampleWorld "clipperType (clientInfo sampleSession)"]
    by (simp add: firstCall_def)
  have r2: "storageReads (snd (snd secondCall)) = storageReads (snd (snd firstCall)) @
     [doNotPromptRatings, lastBadRatingDate, lastBadRatingVersion, lastSeenVersion,
      numSuccessfulClips]"
    unfolding secondCall_def st by (rule shouldShow_reads_stored [OF s e2])
  show ?thesis using s r st r1 r2 by simp
qed

text \<open>
  C7 (amended). For a session whose client has the ratings prompt disabled (the setting
  is absent, or its value in lower case is not \<^verbatim>\<open>"true"\<close>), a call reads none of the
  stored values, and it returns false when the session holds no cached decision; when
  the session holds one, the call returns it, without looking at the setting.
\<close>

theorem disabled_client_no_reads:
  assumes "\<not> ratingsPromptEnabledForClient w (clipperType (clientInfo cs))"
  shows "fst (shouldShowRatingsPrompt c (Some cs) w) =
           (case showRatingsPrompt cs of None \<Rightarrow> False | Some cached \<Rightarrow> cached) \<and>
         storageReads (snd (snd (shouldShowRatingsPrompt c (Some cs) w))) = storageReads w \<and>
         (case getSetting w (combineClientTypeAndSuffix w (clipperType (clientInfo cs))
                  ''_RatingsEnabled'') of
            None \<Rightarrow> True
          | Some str \<Rightarrow> toLowerCase str \<noteq> ''true'')"
proof (cases "showRatingsPrompt cs")
  case None
  from internal_disabled [OF None assms] assms show ?thesis
    by (simp add: shouldShow_result shouldShow_reads None enabled_eval split: option.splits)
next
  case (Some cached)
  from internal_cached [OF Some] assms show ?thesis
    by (simp add: shouldShow_result shouldShow_reads Some enabled_eval split: option.splits)
qed

theorem disabled_client_no_reads_witness:
  "\<not> ratingsPromptEnabledForClient disabledWorld (clipperType (clientInfo sampleSession)) \<and>
   fst (shouldShowRatingsPrompt sampleSettings (Some sampleSession) disabledWorld) = False \<and>
   storageReads (snd (snd (shouldShowRatingsPrompt sampleSettings (Some sampleSession)
     disabledWorld))) = []"
proof -
  have d: "\<not> ratingsPromptEnabledForClient disabledWorld (clipperType (clientInfo sampleSession))"
    using sample_disabled by (simp add: sampleSession_def)
  from disabled_client_no_reads [OF d, of sampleSettings] d show ?thesis
    by (simp add: disabledWorld_fields sampleSession_def)
qed

text \<open>
  The claim as it was stated fails: with the prompt disabled for the client and a cached
  decision of true in the session, the call returns true.
\<close>

theorem disabled_client_returns_false_counterexample:
  "\<not> ratingsPromptEnabledForClient disabledWorld (clipperType (clientInfo cachedSession)) \<and>
   fst (shouldShowRatingsPrompt sampleSettings (Some cachedSession) disabledWorld) = True"
proof -
  have "showRatingsPrompt cachedSession = Some True"
    by (simp add: cachedSession_def)
  from internal_cached [OF this] sample_disabled show ?thesis
    by (simp add: shouldShow_result cachedSession_def)
qed

text \<open>
  C8 (amended). For an absent session the call returns false and logs one event with
  status Failed whose failure information is the message
  \<^verbatim>\<open>"Clipper state is null or undefined"\<close>; the session stays absent, nothing is read
  from or written to storage, and the call ends with this result, not with an
  exception.
\<close>

theorem absent_session_failure:
  "shouldShowRatingsPrompt c None w =
     (False, None,
      w\<lparr>loggedEvents := loggedEvents w @
          [\<lparr>label = ShouldShowRatingsPrompt, status = Failed,
            failureInfo = Some ''Clipper state is null or undefined'',
            custom_ShouldShowRatingsPrompt = Some False,
            custom_RatingsInfo = Some emptyInfo\<rparr>]\<rparr>)"
  by (simp add: shouldShowRatingsPrompt_def internal_absent logEvent_def newPromiseEvent_def)

theorem absent_session_failure_witness:
  "fst (shouldShowRatingsPrompt sampleSettings None sampleWorld) = False \<and>
   map status (loggedEvents (snd (snd (shouldShowRatingsPrompt sampleSettings None sampleWorld))))
     = [Failed] \<and>
   map failureInfo
     (loggedEvents (snd (snd (shouldShowRatingsPrompt sampleSettings None sampleWorld))))
     = [Some ''Clipper state is null or undefined'']"
  using absent_session_failure [of sampleSettings sampleWorld]
  by (simp add: sampleWorld_fields)

text \<open>
  The claim as it was stated fails: the message of the logged event is not
  \<^verbatim>\<open>"session state is missing"\<close>.
\<close>

theorem absent_session_message_counterexample:
  "map failureInfo
     (loggedEvents (snd (snd (shouldShowRatingsPrompt sampleSettings None sampleWorld))))
     \<noteq> [Some ''session state is missing'']"
  by (simp add: shouldShowRatingsPrompt_def internal_absent logEvent_def newPromiseEvent_def
      sampleWorld_fields)


end
